theory Spec2Isabelle
  imports Complex_Main
begin

section \<open>Face analysis pipeline: detection decoding, suppression, refinement, aggregation\<close>

text \<open>
  The Python sources compute on numpy float32 arrays. Here every float is a \<open>real\<close>:
  rounding error, NaN and infinities are outside the model, and the theorems below are
  about the arithmetic and the control flow the code writes down. Python integers are
  \<open>int\<close>, list positions are \<open>nat\<close>. A numpy row is a \<open>real list\<close>; a two-dimensional
  array is a list of rows.
\<close>

subsection \<open>Python values and indexing\<close>

datatype py_error = IndexError | TypeError | ValueError

text \<open>
  The emotion label travels through the pipeline untyped: it is a class index or a class
  name, whatever the annotations say.
\<close>

datatype py_value = PInt int | PStr string

text \<open>
  Subscripting a Python list: positions \<open>0 .. len-1\<close> read from the front,
  positions \<open>-len .. -1\<close> read from the back, everything else raises IndexError.
\<close>

definition py_getitem :: "'a list \<Rightarrow> int \<Rightarrow> py_error + 'a" where
  "py_getitem xs i =
     (if 0 \<le> i \<and> i < int (length xs) then Inr (xs ! nat i)
      else if i < 0 \<and> - int (length xs) \<le> i then Inr (xs ! nat (int (length xs) + i))
      else Inl IndexError)"

subsection \<open>EmotionPredictor.postprocess\<close>

definition classes :: "string list" where
  "classes = [''angry'', ''disgust'', ''fear'', ''happy'', ''sad'', ''surprise'', ''neutral'']"

text \<open>\<open>np.max\<close> over a row; the row is not empty where it is called.\<close>

fun amax :: "real list \<Rightarrow> real" where
  "amax [] = 0"
| "amax [x] = x"
| "amax (x # y # ys) = max x (amax (y # ys))"

text \<open>\<open>np.argmax\<close>: the first position that holds the maximum.\<close>

definition argmax :: "real list \<Rightarrow> nat" where
  "argmax xs = length (takeWhile (\<lambda>x. x \<noteq> amax xs) xs)"

text \<open>
  Lines 71 to 74 on one row: subtract the row maximum, exponentiate, divide by the sum.
\<close>

definition softmax_row :: "real list \<Rightarrow> real list" where
  "softmax_row outputs_row =
     (let logits = map (\<lambda>v. v - amax outputs_row) outputs_row;
          exps = map exp logits
      in map (\<lambda>e. e / sum_list exps) exps)"

text \<open>
  The body of the loop of lines 77 to 85 on one probability row. The sentinel \<open>-1\<close> is
  used as an index into \<open>self.classes\<close>.
\<close>

definition postprocess_probability ::
  "real list \<Rightarrow> py_error + (py_value \<times> real \<times> real list)" where
  "postprocess_probability probability =
     (let label = argmax probability;
          confidence = probability ! label;
          emotion_index = (if confidence < 1 / 2 then - 1 else int label)
      in case py_getitem classes emotion_index of
           Inl e \<Rightarrow> Inl e
         | Inr emotion_label \<Rightarrow> Inr (PStr emotion_label, confidence, probability))"

fun postprocess_rows ::
  "real list list \<Rightarrow> py_error + (py_value \<times> real \<times> real list) list" where
  "postprocess_rows [] = Inr []"
| "postprocess_rows (probability # probs) =
     (case postprocess_probability probability of
        Inl e \<Rightarrow> Inl e
      | Inr r \<Rightarrow>
          (case postprocess_rows probs of
             Inl e \<Rightarrow> Inl e
           | Inr rs \<Rightarrow> Inr (r # rs)))"

text \<open>\<open>outputs.size\<close> of a two-dimensional array: rows times columns.\<close>

definition size2d :: "'a list list \<Rightarrow> nat" where
  "size2d outputs = (case outputs of [] \<Rightarrow> 0 | r # _ \<Rightarrow> length outputs * length r)"

definition postprocess ::
  "real list list \<Rightarrow> py_error + (py_value \<times> real \<times> real list) list" where
  "postprocess outputs =
     (if size2d outputs = 0 then Inr []
      else postprocess_rows (map softmax_row outputs))"

subsection \<open>StreamingFaceAnalysis.analyze: the aggregator\<close>

record detection =
  box :: "int \<times> int \<times> int \<times> int"
  score :: real
  keypoints :: "(int \<times> int) list"

record aggregated_face_result =
  bbox :: "int \<times> int \<times> int \<times> int"
  face_score :: real
  face_keypoints :: "(int \<times> int) list"
  gender :: "string option"
  age_bucket :: "string option"
  emotion_label :: "py_value option"
  emotion_confidence :: "real option"
  emotion_distribution :: "real list option"

text \<open>
  Lines 114 to 118. The conditional expression short-circuits: without a label list the
  value is passed through; with one, \<open>0 <= label_idx\<close> is evaluated first, and Python 3
  raises TypeError when it compares an int with a str.
\<close>

definition resolve_label :: "string list option \<Rightarrow> py_value \<Rightarrow> py_error + py_value" where
  "resolve_label emotion_labels label_idx =
     (case emotion_labels of
        None \<Rightarrow> Inr label_idx
      | Some names \<Rightarrow>
          (case label_idx of
             PStr s \<Rightarrow> Inl TypeError
           | PInt i \<Rightarrow>
               if 0 \<le> i \<and> i < int (length names) then Inr (PStr (names ! nat i))
               else Inr (PInt i)))"

text \<open>The body of the loop of lines 103 to 133 for one detection at position \<open>idx\<close>.\<close>

definition aggregate_face ::
  "string list option \<Rightarrow> (string \<times> string) list \<Rightarrow> (py_value \<times> real \<times> real list) list
     \<Rightarrow> nat \<Rightarrow> detection \<Rightarrow> py_error + aggregated_face_result" where
  "aggregate_face emotion_labels gender_age_results emotion_results idx det =
     (let (gender, age_bucket) =
            (if idx < length gender_age_results
             then (Some (fst (gender_age_results ! idx)), Some (snd (gender_age_results ! idx)))
             else (None, None));
          face = \<lparr>bbox = box det, face_score = score det, face_keypoints = keypoints det,
                  gender = gender, age_bucket = age_bucket,
                  emotion_label = None, emotion_confidence = None,
                  emotion_distribution = None\<rparr>
      in if idx < length emotion_results
         then (case emotion_results ! idx of
                 (label_idx, confidence, distribution) \<Rightarrow>
                   (case resolve_label emotion_labels label_idx of
                      Inl e \<Rightarrow> Inl e
                    | Inr l \<Rightarrow>
                        Inr (face\<lparr>emotion_label := Some l,
                                  emotion_confidence := Some confidence,
                                  emotion_distribution := Some distribution\<rparr>)))
         else Inr face)"

fun aggregate_from ::
  "string list option \<Rightarrow> (string \<times> string) list \<Rightarrow> (py_value \<times> real \<times> real list) list
     \<Rightarrow> nat \<Rightarrow> detection list \<Rightarrow> py_error + aggregated_face_result list" where
  "aggregate_from emotion_labels gender_age_results emotion_results idx [] = Inr []"
| "aggregate_from emotion_labels gender_age_results emotion_results idx (det # dets) =
     (case aggregate_face emotion_labels gender_age_results emotion_results idx det of
        Inl e \<Rightarrow> Inl e
      | Inr face \<Rightarrow>
          (case aggregate_from emotion_labels gender_age_results emotion_results (Suc idx) dets of
             Inl e \<Rightarrow> Inl e
           | Inr faces \<Rightarrow> Inr (face # faces)))"

text \<open>
  Lines 93 to 135 of \<open>analyze\<close>, from the detections and the two classifiers' results to
  the aggregated list (serialised one to one by \<open>as_dict\<close>).
\<close>

definition aggregate ::
  "string list option \<Rightarrow> detection list \<Rightarrow> (string \<times> string) list
     \<Rightarrow> (py_value \<times> real \<times> real list) list \<Rightarrow> py_error + aggregated_face_result list" where
  "aggregate emotion_labels detections gender_age_results emotion_results =
     (if detections = [] then Inr []
      else aggregate_from emotion_labels gender_age_results emotion_results 0 detections)"


subsection \<open>FaceDetection: intersection over union\<close>

text \<open>
  \<open>_intersect\<close> and \<open>_jaccard\<close> for one row of \<open>box_b\<close>; the source applies them to every
  row at once. \<open>np.clip(v, a_min=c, a_max=None)\<close> is \<open>max v c\<close>.
\<close>

definition intersect :: "real list \<Rightarrow> real list \<Rightarrow> real" where
  "intersect box_a box_b =
     (let max_xy = [min (box_a ! 2) (box_b ! 2), min (box_a ! 3) (box_b ! 3)];
          min_xy = [max (box_a ! 0) (box_b ! 0), max (box_a ! 1) (box_b ! 1)];
          inter = map (\<lambda>(hi, lo). max (hi - lo) 0) (zip max_xy min_xy)
      in inter ! 0 * inter ! 1)"

definition jaccard :: "real list \<Rightarrow> real list \<Rightarrow> real" where
  "jaccard box_a box_b =
     (let inter = intersect box_a box_b;
          area_a = (box_a ! 2 - box_a ! 0) * (box_a ! 3 - box_a ! 1);
          area_b = (box_b ! 2 - box_b ! 0) * (box_b ! 3 - box_b ! 1);
          union_ab = area_a + area_b - inter
      in inter / max union_ab (1 / 1000000))"

subsection \<open>FaceDetection: weighted non-max suppression\<close>

text \<open>
  \<open>np.argsort(detections[:, 16])[::-1]\<close>: the row positions by ascending score, reversed.
  Among equal scores numpy's order is an implementation detail; no theorem below depends
  on it.
\<close>

definition argsort_desc :: "real list \<Rightarrow> nat list" where
  "argsort_desc scores = rev (sort_key (\<lambda>i. scores ! i) [0..<length scores])"

text \<open>
  One pass of the body of the \<open>while\<close> loop, lines 91 to 106: the detection to append and
  the new \<open>remaining\<close>. A detection is a row of 17 numbers, 16 coordinates and the score.

  The source computes the mask \<open>ious > min_suppression_threshold\<close> on a float32 array, so
  the threshold, a Python float, is narrowed to float32 for the comparison: a threshold in
  \<open>[1 - 2^-25, 1)\<close> is compared as \<open>1.0\<close>. Here the comparison is the one on reals, which
  agrees with the source wherever the threshold and the ratios are float32 values
  (threshold 1.0 against the ratio 1.0, threshold 0.3 against the ratio 0.5); what is
  proved from the threshold being below the ratio 1 is stated for thresholds of at most
  \<open>0.999999\<close>, which float32 keeps apart from 1 and from a ratio rounded a few steps
  below 1.
\<close>

definition wnms_round :: "real list list \<Rightarrow> real \<Rightarrow> nat list \<Rightarrow> real list \<times> nat list" where
  "wnms_round detections min_suppression_threshold remaining =
     (let detection = detections ! hd remaining;
          other_boxes = map (\<lambda>i. take 4 (detections ! i)) remaining;
          ious = map (jaccard (take 4 detection)) other_boxes;
          mask = map (\<lambda>v. min_suppression_threshold < v) ious;
          overlapping = map fst (filter snd (zip remaining mask));
          remaining_next = map fst (filter (\<lambda>p. \<not> snd p) (zip remaining mask));
          weighted_detection =
            (if 1 < length overlapping
             then (let coordinates = map (\<lambda>i. take 16 (detections ! i)) overlapping;
                       scores = map (\<lambda>i. detections ! i ! 16) overlapping;
                       total_score = sum_list scores;
                       weighted = map (\<lambda>c. sum_list (map (\<lambda>(row, s). row ! c * s)
                                                      (zip coordinates scores)) / total_score)
                                      [0..<16]
                   in (weighted @ drop 16 detection)
                        [16 := total_score / real (length overlapping)])
             else detection)
      in (weighted_detection, remaining_next))"

text \<open>
  The \<open>while remaining.size > 0\<close> loop. Nothing in the source bounds the number of
  passes, so the loop is a partial function: \<open>None\<close> is a run that never returns.
\<close>

partial_function (option) wnms_loop ::
  "real list list \<Rightarrow> real \<Rightarrow> nat list \<Rightarrow> real list list \<Rightarrow> real list list option" where
  "wnms_loop detections min_suppression_threshold remaining output =
     (if remaining = [] then Some output
      else (case wnms_round detections min_suppression_threshold remaining of
              (weighted_detection, remaining_next) \<Rightarrow>
                wnms_loop detections min_suppression_threshold remaining_next
                  (output @ [weighted_detection])))"

definition weighted_non_max_suppression ::
  "real list list \<Rightarrow> real \<Rightarrow> real list list option" where
  "weighted_non_max_suppression detections min_suppression_threshold =
     (if size2d detections = 0 then Some []
      else wnms_loop detections min_suppression_threshold
             (argsort_desc (map (\<lambda>d. d ! 16) detections)) [])"

text \<open>
  Names for what the theorems about the suppressor speak of: the area \<open>_jaccard\<close>
  computes for a box, a box with positive height and width whose area reaches the floor
  of the denominator, the overlap of a row with the current candidate, and the set of
  rows the mask selects.
\<close>

definition box_area :: "real list \<Rightarrow> real" where
  "box_area d = (d ! 2 - d ! 0) * (d ! 3 - d ! 1)"

definition well_formed_box :: "real list \<Rightarrow> bool" where
  "well_formed_box d \<longleftrightarrow> d ! 0 < d ! 2 \<and> d ! 1 < d ! 3 \<and> 1 / 1000000 \<le> box_area d"

definition candidate_iou :: "real list list \<Rightarrow> nat list \<Rightarrow> nat \<Rightarrow> real" where
  "candidate_iou detections remaining i =
     jaccard (take 4 (detections ! hd remaining)) (take 4 (detections ! i))"

definition overlapping_set :: "real list list \<Rightarrow> real \<Rightarrow> nat list \<Rightarrow> nat list" where
  "overlapping_set detections thr remaining =
     filter (\<lambda>i. thr < candidate_iou detections remaining i) remaining"

subsection \<open>FaceDetection: configuration\<close>

record face_detection =
  anchors :: "real list list"
  image_size :: int
  x_scale :: real
  y_scale :: real
  w_scale :: real
  h_scale :: real
  min_score_thresh :: real
  score_clipping_thresh :: real
  min_suppression_threshold :: real

text \<open>
  The constructor, lines 39 to 59: the anchor table must have shape (896, 4); the scales
  and the score threshold depend on \<open>back_model\<close>.
\<close>

definition face_detection_init :: "real list list \<Rightarrow> bool \<Rightarrow> py_error + face_detection" where
  "face_detection_init anchor_table back_model =
     (if \<not> (length anchor_table = 896 \<and> (\<forall>a \<in> set anchor_table. length a = 4))
      then Inl ValueError
      else if back_model
      then Inr \<lparr>anchors = anchor_table, image_size = 256,
                x_scale = 256, y_scale = 256, w_scale = 256, h_scale = 256,
                min_score_thresh = 65 / 100, score_clipping_thresh = 100,
                min_suppression_threshold = 3 / 10\<rparr>
      else Inr \<lparr>anchors = anchor_table, image_size = 128,
                x_scale = 128, y_scale = 128, w_scale = 128, h_scale = 128,
                min_score_thresh = 25 / 100, score_clipping_thresh = 100,
                min_suppression_threshold = 3 / 10\<rparr>)"

subsection \<open>FaceDetection: anchor decoding\<close>

text \<open>
  \<open>_decode_boxes\<close> on one raw row and its anchor row: a row of zeros of the raw row's
  shape, then the four corner assignments, then the loop over the six keypoints.
\<close>

definition decode_row :: "face_detection \<Rightarrow> real list \<Rightarrow> real list \<Rightarrow> real list" where
  "decode_row self raw anchor =
     (let boxes = replicate (length raw) (0::real);
          x_center = raw ! 0 / x_scale self * anchor ! 2 + anchor ! 0;
          y_center = raw ! 1 / y_scale self * anchor ! 3 + anchor ! 1;
          w = raw ! 2 / w_scale self * anchor ! 2;
          h = raw ! 3 / h_scale self * anchor ! 3;
          boxes = boxes[0 := y_center - h / 2];
          boxes = boxes[1 := x_center - w / 2];
          boxes = boxes[2 := y_center + h / 2];
          boxes = boxes[3 := x_center + w / 2]
      in fold (\<lambda>k boxes.
                 (let offset = 4 + k * 2;
                      keypoint_x = raw ! offset / x_scale self * anchor ! 2 + anchor ! 0;
                      keypoint_y = raw ! (offset + 1) / y_scale self * anchor ! 3 + anchor ! 1
                  in boxes[offset := keypoint_x, offset + 1 := keypoint_y]))
              [0..<6] boxes)"

definition decode_boxes :: "face_detection \<Rightarrow> real list list \<Rightarrow> real list list" where
  "decode_boxes self raw_boxes =
     map (\<lambda>(raw, anchor). decode_row self raw anchor) (zip raw_boxes (anchors self))"

subsection \<open>FaceDetection: score path\<close>

definition clip :: "real \<Rightarrow> real \<Rightarrow> real \<Rightarrow> real" where
  "clip v a_min a_max = min (max v a_min) a_max"

definition sigmoid :: "real \<Rightarrow> real" where
  "sigmoid x = 1 / (1 + exp (- x))"

definition detection_postprocess ::
  "face_detection \<Rightarrow> real list list \<Rightarrow> real list \<Rightarrow> real \<Rightarrow> real \<Rightarrow> real list list option" where
  "detection_postprocess self raw_boxes raw_scores score_thresh nms_threshold =
     (let clipped = map (\<lambda>s. clip s (- score_clipping_thresh self) (score_clipping_thresh self))
                        raw_scores;
          detection_scores = map sigmoid clipped;
          mask = map (\<lambda>s. score_thresh \<le> s) detection_scores;
          decoded_boxes = decode_boxes self raw_boxes;
          boxes = map fst (filter snd (zip decoded_boxes mask));
          scores = map fst (filter snd (zip detection_scores mask))
      in if size2d boxes = 0 then Some []
         else weighted_non_max_suppression (map (\<lambda>(b, s). b @ [s]) (zip boxes scores))
                nms_threshold)"

subsection \<open>FaceDetection.detect: pixel boxes and tightening\<close>

text \<open>\<open>int(x)\<close> on a float truncates towards zero.\<close>

definition py_int :: "real \<Rightarrow> int" where
  "py_int x = (if 0 \<le> x then \<lfloor>x\<rfloor> else \<lceil>x\<rceil>)"

text \<open>\<open>round(x)\<close> on a float rounds to the nearest integer, a tie to the even one.\<close>

definition py_round :: "real \<Rightarrow> int" where
  "py_round x =
     (let f = \<lfloor>x\<rfloor>; d = x - of_int f
      in if d < 1 / 2 then f else if 1 / 2 < d then f + 1 else if even f then f else f + 1)"

text \<open>\<open>int(np.clip(v * dim, 0, dim - 1))\<close>, written out at lines 203 to 206, 213 and 214.\<close>

definition to_pixel :: "real \<Rightarrow> int \<Rightarrow> int" where
  "to_pixel v frame_dim = py_int (clip (v * of_int frame_dim) 0 (of_int (frame_dim - 1)))"

text \<open>
  Lines 219 to 232: the two ear-to-eye gaps and the tilt flag. The products with
  \<open>2.0\<close> are exact, so the comparison is the one on integers.
\<close>

definition tilt_gaps :: "(int \<times> int) list \<Rightarrow> int \<times> int" where
  "tilt_gaps tight_points =
     (let left_anchor = tight_points ! 4;
          right_anchor = tight_points ! 5;
          eye_left = tight_points ! 0;
          eye_right = tight_points ! 1;
          left_gap = \<bar>fst left_anchor - fst eye_left\<bar>;
          right_gap = \<bar>fst right_anchor - fst eye_right\<bar>
      in (left_gap, right_gap))"

definition highly_tilted :: "(int \<times> int) list \<Rightarrow> bool" where
  "highly_tilted tight_points =
     (case tilt_gaps tight_points of
        (left_gap, right_gap) \<Rightarrow>
          (if 0 < right_gap \<and> 0 < left_gap
           then (if right_gap * 2 < left_gap \<or> left_gap * 2 < right_gap then True else False)
           else False))"

text \<open>Lines 239 to 263: the horizontal span of the tightened box.\<close>

definition tighten :: "int \<Rightarrow> (int \<times> int) list \<Rightarrow> int \<times> int" where
  "tighten width tight_points =
     (let left_anchor = tight_points ! 4;
          right_anchor = tight_points ! 5;
          anchor_width = max (real_of_int (fst right_anchor - fst left_anchor)) 1;
          anchor_center_x = real_of_int (fst left_anchor + fst right_anchor) / 2;
          shrink_factor = 95 / 100;
          half_width = max (anchor_width * shrink_factor * (1 / 2)) 1;
          base_xmin = anchor_center_x - half_width;
          base_xmax = anchor_center_x + half_width;
          nose_x = real_of_int (fst (tight_points ! 2));
          width_span = max (base_xmax - base_xmin) 1;
          centered_xmin = nose_x - width_span / 2;
          centered_xmax = nose_x + width_span / 2;
          centered_xmin = max centered_xmin 0;
          centered_xmax = min centered_xmax (real_of_int (width - 1));
          span = centered_xmax - centered_xmin;
          deficit = width_span - span;
          (centered_xmin, centered_xmax) =
            (if span < width_span
             then (max (centered_xmin - deficit / 2) 0,
                   min (centered_xmax + deficit / 2) (real_of_int (width - 1)))
             else (centered_xmin, centered_xmax));
          xmin_int = py_round centered_xmin;
          xmax_int = py_round centered_xmax;
          xmin_int = max xmin_int 0;
          xmax_int = max xmax_int (xmin_int + 1);
          xmax_int = min xmax_int (width - 1);
          xmin_int = min xmin_int (xmax_int - 1)
      in (xmin_int, xmax_int))"

text \<open>
  The body of the loop of lines 201 to 270 for one suppressed detection, in a frame of the
  given width and height.
\<close>

definition detect_one :: "int \<Rightarrow> int \<Rightarrow> real list \<Rightarrow> detection" where
  "detect_one width height detection =
     (let xmin = to_pixel (detection ! 1) width;
          xmax = to_pixel (detection ! 3) width;
          ymin = to_pixel (detection ! 0) height;
          ymax = to_pixel (detection ! 2) height;
          keypoints = map (\<lambda>k. (to_pixel (detection ! (4 + k * 2)) width,
                                 to_pixel (detection ! (5 + k * 2)) height)) [0..<6];
          tight_points = keypoints;
          box = (if 6 \<le> length tight_points
                 then (if highly_tilted tight_points then (xmin, ymin, xmax, ymax)
                       else (case tighten width tight_points of
                               (xmin_int, xmax_int) \<Rightarrow> (xmin_int, ymin, xmax_int, ymax)))
                 else (xmin, ymin, xmax, ymax))
      in \<lparr>box = box, score = detection ! 16, keypoints = keypoints\<rparr>)"

definition detect_results :: "int \<Rightarrow> int \<Rightarrow> real list list \<Rightarrow> detection list" where
  "detect_results width height detections = map (detect_one width height) detections"

section \<open>Theorems\<close>

subsection \<open>Emotion decision rule\<close>

lemma low_confidence_is_neutral:
  assumes "probability ! argmax probability < 1 / 2"
  shows "postprocess_probability probability =
           Inr (PStr ''neutral'', probability ! argmax probability, probability)"
  using assms by (simp add: postprocess_probability_def py_getitem_def classes_def Let_def)

lemma postprocess_probability_is_name:
  assumes "postprocess_probability probability = Inr (l, c, d)"
  shows "\<exists>s. l = PStr s"
  using assms by (auto simp: postprocess_probability_def Let_def split: sum.splits)

text \<open>
  C1. A row whose largest softmax probability is below 0.5 should give the sentinel
  \<open>-1\<close> and never one of the seven class names. The code indexes \<open>self.classes\<close> with
  the sentinel, and \<open>classes[-1]\<close> is the last name: seven equal logits have largest
  probability 1/7 and are reported as \<open>neutral\<close>.
\<close>

theorem postprocess_uniform_logits_neutral:
  "postprocess [[0, 0, 0, 0, 0, 0, 0]] =
     Inr [(PStr ''neutral'', 1 / 7, [1 / 7, 1 / 7, 1 / 7, 1 / 7, 1 / 7, 1 / 7, 1 / 7])]"
  by (simp add: postprocess_def size2d_def softmax_row_def postprocess_probability_def
      argmax_def py_getitem_def classes_def Let_def)

subsection \<open>Aggregator\<close>

lemma resolve_label_index:
  "resolve_label emotion_labels (PInt i) =
     Inr (case emotion_labels of
            None \<Rightarrow> PInt i
          | Some names \<Rightarrow>
              if 0 \<le> i \<and> i < int (length names) then PStr (names ! nat i) else PInt i)"
  by (simp add: resolve_label_def split: option.splits)

lemma resolve_label_name_raises:
  "resolve_label (Some names) (PStr s) = Inl TypeError"
  by (simp add: resolve_label_def)

lemma resolve_label_ok:
  assumes "emotion_labels = None \<or> (\<exists>i. l = PInt i)"
  shows "\<exists>v. resolve_label emotion_labels l = Inr v"
  using assms by (auto simp: resolve_label_def split: option.splits py_value.splits)

text \<open>
  C2. With an external label list the aggregator should substitute the name or pass the
  index through, and never raise. What \<open>EmotionPredictor.postprocess\<close> hands over is a
  class name, not an index: on the probability row of a confident \<open>happy\<close> the label is
  the string \<open>happy\<close>, and the bounds test \<open>0 <= label_idx\<close> of the aggregator raises
  TypeError as soon as a label list is configured.
\<close>

theorem aggregate_label_list_raises:
  "postprocess_probability [1 / 10, 1 / 10, 1 / 10, 11 / 20, 1 / 20, 1 / 20, 1 / 20] =
     Inr (PStr ''happy'', 11 / 20, [1 / 10, 1 / 10, 1 / 10, 11 / 20, 1 / 20, 1 / 20, 1 / 20])
   \<and> aggregate
       (Some [''angry'', ''disgust'', ''fear'', ''happy'', ''sad'', ''surprise'', ''neutral''])
       [\<lparr>box = (10, 10, 50, 50), score = 9 / 10, keypoints = []\<rparr>]
       [(''male'', ''19-36'')]
       [(PStr ''happy'', 11 / 20, [1 / 10, 1 / 10, 1 / 10, 11 / 20, 1 / 20, 1 / 20, 1 / 20])]
     = Inl TypeError"
  by (simp add: postprocess_probability_def argmax_def py_getitem_def classes_def Let_def
      aggregate_def aggregate_face_def resolve_label_def)

lemma aggregate_face_ok:
  assumes "emotion_labels = None \<or> (\<forall>r \<in> set em. \<exists>i. fst r = PInt i)"
  shows "\<exists>face. aggregate_face emotion_labels ga em idx det = Inr face
     \<and> bbox face = box det \<and> face_score face = score det
     \<and> face_keypoints face = keypoints det
     \<and> gender face = (if idx < length ga then Some (fst (ga ! idx)) else None)
     \<and> age_bucket face = (if idx < length ga then Some (snd (ga ! idx)) else None)
     \<and> (length em \<le> idx \<longrightarrow> emotion_label face = None \<and> emotion_confidence face = None
           \<and> emotion_distribution face = None)"
proof (cases "idx < length em")
  case False
  then show ?thesis by (simp add: aggregate_face_def)
next
  case True
  obtain l c d where r: "em ! idx = (l, c, d)" by (cases "em ! idx") auto
  from True have "em ! idx \<in> set em" by simp
  with assms r have "emotion_labels = None \<or> (\<exists>i. l = PInt i)" by force
  then obtain v where "resolve_label emotion_labels l = Inr v"
    using resolve_label_ok by blast
  with True r show ?thesis by (simp add: aggregate_face_def)
qed

lemma aggregate_from_ok:
  assumes "emotion_labels = None \<or> (\<forall>r \<in> set em. \<exists>i. fst r = PInt i)"
  shows "\<exists>faces. aggregate_from emotion_labels ga em idx dets = Inr faces
     \<and> length faces = length dets
     \<and> (\<forall>j < length dets.
           aggregate_face emotion_labels ga em (idx + j) (dets ! j) = Inr (faces ! j))"
proof (induction dets arbitrary: idx)
  case Nil
  show ?case by simp
next
  case (Cons det dets)
  obtain face where f: "aggregate_face emotion_labels ga em idx det = Inr face"
    using aggregate_face_ok [OF assms] by blast
  obtain faces where fs:
    "aggregate_from emotion_labels ga em (Suc idx) dets = Inr faces"
    "length faces = length dets"
    "\<forall>j < length dets.
       aggregate_face emotion_labels ga em (Suc idx + j) (dets ! j) = Inr (faces ! j)"
    using Cons.IH by blast
  have "\<forall>j < length (det # dets).
          aggregate_face emotion_labels ga em (idx + j) ((det # dets) ! j)
            = Inr ((face # faces) ! j)"
  proof (intro allI impI)
    fix j assume "j < length (det # dets)"
    then show "aggregate_face emotion_labels ga em (idx + j) ((det # dets) ! j)
                 = Inr ((face # faces) ! j)"
      using f fs(3) by (cases j) auto
  qed
  with f fs(1,2) show ?case by simp
qed

text \<open>
  Without a label list, or on integer class indices, the aggregator returns one record
  per detection, in detection order, for classifier result lists of any lengths. The
  record at position \<open>j\<close> carries the detection's box, score and keypoints; its gender and
  age bucket are those of the classifier at \<open>j\<close> when it has a result there and are absent
  otherwise; its emotion fields are absent when the emotion classifier has no result at
  \<open>j\<close>. When the gender/age classifier returns one result fewer than there are detections,
  the last face has neither gender nor age bucket.
\<close>

lemma aggregate_without_label_lookup_failure:
  assumes nonempty: "detections \<noteq> []"
    and typed: "emotion_labels = None \<or> (\<forall>r \<in> set em. \<exists>i. fst r = PInt i)"
  shows "\<exists>faces. aggregate emotion_labels detections ga em = Inr faces
     \<and> length faces = length detections
     \<and> (\<forall>j < length detections.
           bbox (faces ! j) = box (detections ! j)
         \<and> face_score (faces ! j) = score (detections ! j)
         \<and> face_keypoints (faces ! j) = keypoints (detections ! j)
         \<and> gender (faces ! j) = (if j < length ga then Some (fst (ga ! j)) else None)
         \<and> age_bucket (faces ! j) = (if j < length ga then Some (snd (ga ! j)) else None)
         \<and> (length em \<le> j \<longrightarrow> emotion_label (faces ! j) = None
               \<and> emotion_confidence (faces ! j) = None
               \<and> emotion_distribution (faces ! j) = None))
     \<and> (Suc (length ga) = length detections \<longrightarrow>
           gender (last faces) = None \<and> age_bucket (last faces) = None)"
proof -
  obtain faces where fs:
    "aggregate_from emotion_labels ga em 0 detections = Inr faces"
    "length faces = length detections"
    "\<forall>j < length detections.
       aggregate_face emotion_labels ga em (0 + j) (detections ! j) = Inr (faces ! j)"
    using aggregate_from_ok [OF typed] by blast
  have each: "bbox (faces ! j) = box (detections ! j)
         \<and> face_score (faces ! j) = score (detections ! j)
         \<and> face_keypoints (faces ! j) = keypoints (detections ! j)
         \<and> gender (faces ! j) = (if j < length ga then Some (fst (ga ! j)) else None)
         \<and> age_bucket (faces ! j) = (if j < length ga then Some (snd (ga ! j)) else None)
         \<and> (length em \<le> j \<longrightarrow> emotion_label (faces ! j) = None
               \<and> emotion_confidence (faces ! j) = None
               \<and> emotion_distribution (faces ! j) = None)"
    if "j < length detections" for j
  proof -
    from fs(3) that
    have "aggregate_face emotion_labels ga em j (detections ! j) = Inr (faces ! j)" by simp
    with aggregate_face_ok [OF typed, of ga j "detections ! j"] show ?thesis by auto
  qed
  have lastp: "gender (last faces) = None \<and> age_bucket (last faces) = None"
    if "Suc (length ga) = length detections"
  proof -
    from nonempty fs(2) have ne: "faces \<noteq> []" by auto
    have "last faces = faces ! length ga"
      using that [symmetric] fs(2) ne by (simp add: last_conv_nth)
    moreover have "length ga < length detections" using that by simp
    ultimately show ?thesis using each [of "length ga"] by simp
  qed
  from fs(1) nonempty have "aggregate emotion_labels detections ga em = Inr faces"
    by (simp add: aggregate_def)
  with fs(2) each lastp show ?thesis by blast
qed

lemma aggregate_one_result_fewer_example:
  "\<exists>faces.
      aggregate None
        [\<lparr>box = (0, 0, 4, 4), score = 9 / 10, keypoints = []\<rparr>,
         \<lparr>box = (5, 5, 9, 9), score = 8 / 10, keypoints = []\<rparr>]
        [(''male'', ''19-36'')]
        [(PStr ''happy'', 11 / 20, [])] = Inr faces
    \<and> length faces = 2
    \<and> gender (faces ! 0) = Some ''male''
    \<and> gender (last faces) = None \<and> age_bucket (last faces) = None"
  using aggregate_without_label_lookup_failure
    [of "[\<lparr>box = (0, 0, 4, 4), score = 9 / 10, keypoints = []\<rparr>,
          \<lparr>box = (5, 5, 9, 9), score = 8 / 10, keypoints = []\<rparr>]"
        None "[(PStr ''happy'', 11 / 20, [])]" "[(''male'', ''19-36'')]"]
  by auto

text \<open>
  C9. For a non-empty detection list and classifier result lists of any lengths the
  aggregator should return one record per detection without raising, the fields of a
  missing classifier result absent. It does so only while no label list is configured.
  With one, the emotion results that \<open>EmotionPredictor.postprocess\<close> produces carry class
  names, the bounds test \<open>0 <= label_idx\<close> raises TypeError at the first face, and no
  record is returned: two detections, one gender/age result and a label list give
  TypeError instead of two records whose second has no gender and no age bucket.
\<close>

theorem aggregate_length_mismatch_raises:
  "postprocess_probability [1 / 10, 1 / 10, 1 / 10, 11 / 20, 1 / 20, 1 / 20, 1 / 20] =
     Inr (PStr ''happy'', 11 / 20, [1 / 10, 1 / 10, 1 / 10, 11 / 20, 1 / 20, 1 / 20, 1 / 20])
   \<and> aggregate
       (Some [''angry'', ''disgust'', ''fear'', ''happy'', ''sad'', ''surprise'', ''neutral''])
       [\<lparr>box = (10, 10, 50, 50), score = 9 / 10, keypoints = []\<rparr>,
        \<lparr>box = (60, 10, 100, 50), score = 8 / 10, keypoints = []\<rparr>]
       [(''male'', ''19-36'')]
       [(PStr ''happy'', 11 / 20, [1 / 10, 1 / 10, 1 / 10, 11 / 20, 1 / 20, 1 / 20, 1 / 20]),
        (PStr ''happy'', 11 / 20, [1 / 10, 1 / 10, 1 / 10, 11 / 20, 1 / 20, 1 / 20, 1 / 20])]
     = Inl TypeError"
  by (simp add: postprocess_probability_def argmax_def py_getitem_def classes_def Let_def
      aggregate_def aggregate_face_def resolve_label_def)

subsection \<open>Intersection over union\<close>

lemma intersect_commute: "intersect a b = intersect b a"
  by (simp add: intersect_def min.commute max.commute)

lemma intersect_self:
  "intersect a a = max (a ! 2 - a ! 0) 0 * max (a ! 3 - a ! 1) 0"
  by (simp add: intersect_def)

lemma jaccard_commute: "jaccard a b = jaccard b a"
  by (simp add: jaccard_def intersect_commute add.commute)

lemma jaccard_self_one:
  assumes "a ! 0 < a ! 2" "a ! 1 < a ! 3" "1 / 1000000 \<le> (a ! 2 - a ! 0) * (a ! 3 - a ! 1)"
  shows "jaccard a a = 1"
proof -
  define A where "A = (a ! 2 - a ! 0) * (a ! 3 - a ! 1)"
  have i: "intersect a a = A" using assms(1,2) by (simp add: intersect_self max_def A_def)
  have pos: "0 < A" and big: "max A (1 / 1000000) = A"
    using assms(3) by (simp_all add: A_def max_def)
  have "jaccard a a = A / max (A + A - A) (1 / 1000000)"
    unfolding jaccard_def Let_def i A_def by simp
  also have "\<dots> = A / A" using big by simp
  also have "\<dots> = 1" using pos by simp
  finally show ?thesis .
qed

lemma jaccard_zero_area:
  assumes "box_area a = 0"
  shows "jaccard a a = 0"
proof -
  have "intersect a a = 0" using assms by (auto simp: intersect_self max_def box_area_def)
  then show ?thesis by (simp add: jaccard_def Let_def)
qed

text \<open>
  C8, as the claim states it, fails: a box with positive width and height whose area is
  below the floor \<open>1e-6\<close> of the denominator does not overlap itself with ratio 1. The
  square of side \<open>1e-4\<close> has area \<open>1e-8\<close> and overlap \<open>1e-8 / 1e-6\<close> with itself.
\<close>

theorem jaccard_self_small_box_counterexample:
  "0 < box_area [0, 0, 1 / 10000, 1 / 10000]
   \<and> jaccard [0, 0, 1 / 10000, 1 / 10000] [0, 0, 1 / 10000, 1 / 10000] = 1 / 100"
  by (simp add: jaccard_def intersect_def box_area_def Let_def)

lemma jaccard_self_small:
  assumes "c ! 0 < c ! 2" "c ! 1 < c ! 3" "box_area c < 1 / 1000000"
  shows "jaccard c c = box_area c / (1 / 1000000)" "jaccard c c < 1"
proof -
  define A where "A = box_area c"
  have i: "intersect c c = A"
    using assms(1,2) by (simp add: intersect_self max_def A_def box_area_def)
  have small: "max A (1 / 1000000) = 1 / 1000000"
    using assms(3) by (simp add: A_def max_def)
  have "jaccard c c = A / max (A + A - A) (1 / 1000000)"
    unfolding jaccard_def Let_def i A_def box_area_def by simp
  also have "\<dots> = A / (1 / 1000000)" using small by simp
  finally show eq: "jaccard c c = box_area c / (1 / 1000000)" by (simp add: A_def)
  show "jaccard c c < 1" unfolding eq using assms(3) by simp
qed

text \<open>
  C8, amended. The overlap ratio is symmetric for all boxes; a box overlaps itself with
  ratio 1 when its height and width are positive and its area is at least the floor
  \<open>1e-6\<close> of the denominator; and a box with positive height and width whose area is below
  the floor overlaps itself with ratio \<open>area / 1e-6\<close>, which is below 1.
\<close>

theorem jaccard_symmetric_self_one:
  "jaccard a b = jaccard b a
   \<and> (a ! 0 < a ! 2 \<and> a ! 1 < a ! 3 \<and> 1 / 1000000 \<le> box_area a \<longrightarrow> jaccard a a = 1)
   \<and> (c ! 0 < c ! 2 \<and> c ! 1 < c ! 3 \<and> box_area c < 1 / 1000000 \<longrightarrow>
         jaccard c c = box_area c / (1 / 1000000) \<and> jaccard c c < 1)"
  using jaccard_commute [of a b] jaccard_self_one [of a] jaccard_self_small [of c]
  by (simp add: box_area_def)

theorem jaccard_symmetric_self_one_witness:
  "jaccard [0, 0, 1, 1] [0, 0, 1, 1 / 2] = jaccard [0, 0, 1, 1 / 2] [0, 0, 1, 1]
   \<and> jaccard [0, 0, 1, 1] [0, 0, 1, 1] = 1
   \<and> box_area [0, 0, 1 / 10000, 1 / 10000] < 1 / 1000000
   \<and> jaccard [0, 0, 1 / 10000, 1 / 10000] [0, 0, 1 / 10000, 1 / 10000]
        = box_area [0, 0, 1 / 10000, 1 / 10000] / (1 / 1000000)
   \<and> jaccard [0, 0, 1 / 10000, 1 / 10000] [0, 0, 1 / 10000, 1 / 10000] < 1"
  using jaccard_symmetric_self_one
    [of "[0, 0, 1, 1]" "[0, 0, 1, 1 / 2]" "[0, 0, 1 / 10000, 1 / 10000]"]
  by (simp add: box_area_def)

subsection \<open>Weighted suppression\<close>

lemma mask_select:
  "map fst (filter snd (zip xs (map f xs))) = filter f xs"
  "map fst (filter (\<lambda>p. \<not> snd p) (zip xs (map f xs))) = filter (\<lambda>x. \<not> f x) xs"
  by (induction xs) auto

lemma wnms_round_mask:
  "map (\<lambda>v. thr < v) (map (jaccard (take 4 (dets ! hd remaining)))
       (map (\<lambda>i. take 4 (dets ! i)) remaining))
   = map (\<lambda>i. thr < candidate_iou dets remaining i) remaining"
  by (simp add: candidate_iou_def)

lemma wnms_round_remaining:
  "snd (wnms_round dets thr remaining) =
     filter (\<lambda>i. \<not> thr < candidate_iou dets remaining i) remaining"
  unfolding wnms_round_def Let_def wnms_round_mask by (simp add: mask_select)

lemma weighted_column_sum:
  assumes "c < 16"
  shows "(\<Sum>(row, s)\<leftarrow>zip (map (\<lambda>i. take 16 (dets ! i)) ov) (map (\<lambda>i. dets ! i ! 16) ov).
            row ! c * s)
         = (\<Sum>i\<leftarrow>ov. dets ! i ! c * dets ! i ! 16)"
  using assms by (induction ov) auto

lemma wnms_round_emitted:
  "fst (wnms_round dets thr remaining) =
     (let overlapping = overlapping_set dets thr remaining;
          total_score = (\<Sum>i\<leftarrow>overlapping. dets ! i ! 16)
      in if 1 < length overlapping
         then (map (\<lambda>c. (\<Sum>i\<leftarrow>overlapping. dets ! i ! c * dets ! i ! 16) / total_score)
                   [0..<16]
                 @ drop 16 (dets ! hd remaining))
                [16 := total_score / real (length overlapping)]
         else dets ! hd remaining)"
proof -
  have w: "map (\<lambda>c. (\<Sum>(row, s)\<leftarrow>zip (map (\<lambda>i. take 16 (dets ! i)) ov)
                                   (map (\<lambda>i. dets ! i ! 16) ov). row ! c * s) / t) [0..<16]
      = map (\<lambda>c. (\<Sum>i\<leftarrow>ov. dets ! i ! c * dets ! i ! 16) / t) [0..<16]"
    for ov :: "nat list" and t
    by (rule map_cong) (simp_all add: weighted_column_sum)
  show ?thesis
    unfolding wnms_round_def Let_def wnms_round_mask mask_select fst_conv w overlapping_set_def
    by (simp add: comp_def)
qed

text \<open>A pass that leaves \<open>remaining\<close> as it was is repeated for ever.\<close>

lemma wnms_loop_stuck:
  assumes ne: "remaining \<noteq> []"
    and same: "snd (wnms_round dets thr remaining) = remaining"
  shows "wnms_loop dets thr remaining acc = None"
proof (rule ccontr)
  assume "wnms_loop dets thr remaining acc \<noteq> None"
  then obtain y where y: "wnms_loop dets thr remaining acc = Some y" by auto
  obtain wd where wd: "wnms_round dets thr remaining = (wd, remaining)"
    using same by (cases "wnms_round dets thr remaining") auto
  have "\<not> (dets = dets \<and> thr = thr \<and> remaining = remaining)"
  proof (rule wnms_loop.raw_induct
      [where P = "\<lambda>d t r out z. \<not> (d = dets \<and> t = thr \<and> r = remaining)", OF _ y])
    fix loop d t r out z
    assume IH: "\<And>d' t' r' out' z'. loop d' t' r' out' = Some z'
                  \<Longrightarrow> \<not> (d' = dets \<and> t' = thr \<and> r' = remaining)"
      and step: "(if r = [] then Some out
                  else case wnms_round d t r of
                         (weighted_detection, remaining_next) \<Rightarrow>
                           loop d t remaining_next (out @ [weighted_detection])) = Some z"
    show "\<not> (d = dets \<and> t = thr \<and> r = remaining)"
    proof
      assume eq: "d = dets \<and> t = thr \<and> r = remaining"
      with step ne wd have "loop dets thr remaining (out @ [wd]) = Some z" by simp
      from IH [OF this] show False by simp
    qed
  qed
  then show False by simp
qed

lemma candidate_iou_self:
  assumes "well_formed_box (dets ! hd remaining)"
  shows "candidate_iou dets remaining (hd remaining) = 1"
  using assms unfolding candidate_iou_def well_formed_box_def box_area_def
  by (intro jaccard_self_one) simp_all

lemma wnms_round_shrinks:
  assumes "remaining \<noteq> []" "well_formed_box (dets ! hd remaining)" "thr < 1"
  shows "length (snd (wnms_round dets thr remaining)) < length remaining"
proof -
  have "hd remaining \<in> set remaining" using assms(1) by simp
  moreover have "thr < candidate_iou dets remaining (hd remaining)"
    using candidate_iou_self [OF assms(2)] assms(3) by simp
  ultimately show ?thesis
    unfolding wnms_round_remaining by (intro length_filter_less) auto
qed

lemma wnms_loop_total:
  assumes "\<forall>i \<in> set remaining. well_formed_box (dets ! i)" "thr < 1"
  shows "\<exists>out. wnms_loop dets thr remaining acc = Some (acc @ out)
           \<and> length out \<le> length remaining
           \<and> (remaining \<noteq> [] \<longrightarrow> out \<noteq> [] \<and> hd out = fst (wnms_round dets thr remaining))"
  using assms(1)
proof (induction "length remaining" arbitrary: remaining acc rule: less_induct)
  case less
  show ?case
  proof (cases "remaining = []")
    case True
    then show ?thesis by (subst wnms_loop.simps) simp
  next
    case False
    obtain wd rn where r: "wnms_round dets thr remaining = (wd, rn)"
      by (cases "wnms_round dets thr remaining") auto
    have hdwf: "well_formed_box (dets ! hd remaining)" using False less.prems by simp
    from wnms_round_shrinks [OF False hdwf assms(2)] r
    have shorter: "length rn < length remaining" by simp
    have "rn = filter (\<lambda>i. \<not> thr < candidate_iou dets remaining i) remaining"
      using wnms_round_remaining [of dets thr remaining] r by simp
    then have "set rn \<subseteq> set remaining" by auto
    with less.prems have "\<forall>i \<in> set rn. well_formed_box (dets ! i)" by auto
    from less.hyps [OF shorter this, of "acc @ [wd]"]
    obtain out where out: "wnms_loop dets thr rn (acc @ [wd]) = Some ((acc @ [wd]) @ out)"
      "length out \<le> length rn" by blast
    have "wnms_loop dets thr remaining acc = Some (acc @ (wd # out))"
      using False r out(1) by (subst wnms_loop.simps) simp
    moreover have "length (wd # out) \<le> length remaining" using out(2) shorter by simp
    moreover have "hd (wd # out) = fst (wnms_round dets thr remaining)" using r by simp
    ultimately show ?thesis by blast
  qed
qed

lemma argsort_desc_length: "length (argsort_desc scores) = length scores"
  by (simp add: argsort_desc_def)

lemma argsort_desc_set: "set (argsort_desc scores) = {0..<length scores}"
  by (simp add: argsort_desc_def)

lemma argsort_desc_hd_max:
  assumes "j < length scores"
  shows "scores ! j \<le> scores ! hd (argsort_desc scores)"
proof -
  define xs where "xs = sort_key (\<lambda>i. scores ! i) [0..<length scores]"
  have len: "length xs = length scores" by (simp add: xs_def)
  have ne: "xs \<noteq> []" using assms len by auto
  have srt: "sorted (map (\<lambda>i. scores ! i) xs)" by (simp add: xs_def)
  have "j \<in> set xs" using assms by (simp add: xs_def)
  then obtain k where k: "k < length xs" "xs ! k = j" by (auto simp: in_set_conv_nth)
  have "map (\<lambda>i. scores ! i) xs ! k \<le> map (\<lambda>i. scores ! i) xs ! (length xs - 1)"
    using srt k(1) by (intro sorted_nth_mono) auto
  then have "scores ! j \<le> scores ! last xs"
    using k ne by (simp add: last_conv_nth)
  moreover have "hd (argsort_desc scores) = last xs"
    using ne by (simp add: argsort_desc_def xs_def hd_rev)
  ultimately show ?thesis by simp
qed

lemma wnms_well_formed:
  assumes wf: "\<forall>d \<in> set dets. well_formed_box d" and thr: "thr < 1"
  shows "\<exists>out. weighted_non_max_suppression dets thr = Some out
           \<and> length out \<le> length dets"
proof (cases "size2d dets = 0")
  case True
  then show ?thesis by (simp add: weighted_non_max_suppression_def)
next
  case False
  let ?r = "argsort_desc (map (\<lambda>d. d ! 16) dets)"
  have "\<forall>i \<in> set ?r. well_formed_box (dets ! i)"
    using wf by (simp add: argsort_desc_set)
  from wnms_loop_total [OF this thr, of "[]"]
  obtain out where "wnms_loop dets thr ?r [] = Some out" "length out \<le> length ?r" by auto
  with False show ?thesis
    by (simp add: weighted_non_max_suppression_def argsort_desc_length)
qed

lemma wnms_keeps_top:
  assumes wf: "\<forall>d \<in> set dets. well_formed_box d" and thr: "thr < 1"
    and ne: "size2d dets \<noteq> 0"
  shows "\<exists>out. weighted_non_max_suppression dets thr = Some out \<and> out \<noteq> []
           \<and> hd out = fst (wnms_round dets thr (argsort_desc (map (\<lambda>d. d ! 16) dets)))
           \<and> hd (argsort_desc (map (\<lambda>d. d ! 16) dets))
                \<in> set (overlapping_set dets thr (argsort_desc (map (\<lambda>d. d ! 16) dets)))
           \<and> (\<forall>j < length dets.
                 dets ! j ! 16 \<le> dets ! hd (argsort_desc (map (\<lambda>d. d ! 16) dets)) ! 16)"
proof -
  let ?r = "argsort_desc (map (\<lambda>d. d ! 16) dets)"
  from ne have dne: "dets \<noteq> []" by (auto simp: size2d_def)
  then have rne: "?r \<noteq> []" using argsort_desc_length [of "map (\<lambda>d. d ! 16) dets"] by auto
  have rwf: "\<forall>i \<in> set ?r. well_formed_box (dets ! i)"
    using wf by (simp add: argsort_desc_set)
  from wnms_loop_total [OF rwf thr, of "[]"] rne
  obtain out where out: "wnms_loop dets thr ?r [] = Some out" "out \<noteq> []"
    "hd out = fst (wnms_round dets thr ?r)" by auto
  have hdin: "hd ?r \<in> set ?r" using rne by simp
  then have "well_formed_box (dets ! hd ?r)" using rwf by blast
  then have "candidate_iou dets ?r (hd ?r) = 1" by (rule candidate_iou_self)
  with thr hdin have top: "hd ?r \<in> set (overlapping_set dets thr ?r)"
    by (simp add: overlapping_set_def)
  have hdlt: "hd ?r < length dets" using hdin by (simp add: argsort_desc_set)
  have "dets ! j ! 16 \<le> dets ! hd ?r ! 16" if "j < length dets" for j
    using argsort_desc_hd_max [of j "map (\<lambda>d. d ! 16) dets"] that hdlt by simp
  with out top ne show ?thesis by (simp add: weighted_non_max_suppression_def)
qed

text \<open>
  C5. Suppression should return, for every detection list and every threshold, a list no
  longer than its input that keeps the top-scoring detection. With the threshold \<open>1.0\<close>,
  which the HTTP layer accepts, no overlap ratio exceeds the threshold, the mask selects
  nothing, \<open>remaining\<close> never shrinks and the loop appends the candidate for ever: the
  call never returns. (On reals, for well-formed boxes and a threshold below 1, the call
  returns at most as many detections as it was given, the first of them merged from the
  overlapping set of a top-scoring detection: \<open>wnms_well_formed\<close>, \<open>wnms_keeps_top\<close>.)
\<close>

theorem wnms_threshold_one_never_returns:
  "weighted_non_max_suppression
     [[0, 0, 1, 1, 0, 0, 0, 0, 0, 0, 0, 0, 0, 0, 0, 0, 9 / 10]] 1 = None"
proof -
  let ?d = "[[0, 0, 1, 1, 0, 0, 0, 0, 0, 0, 0, 0, 0, 0, 0, 0, 9 / 10 :: real]]"
  have "snd (wnms_round ?d 1 [0]) = [0]"
    by (simp add: wnms_round_remaining candidate_iou_def jaccard_def intersect_def Let_def)
  then have "wnms_loop ?d 1 [0] [] = None" by (intro wnms_loop_stuck) simp_all
  then show ?thesis
    by (simp add: weighted_non_max_suppression_def size2d_def argsort_desc_def)
qed

text \<open>The same happens at the default threshold for a box of area zero.\<close>

lemma wnms_zero_area_never_returns:
  "weighted_non_max_suppression
     [[0, 0, 0, 0, 0, 0, 0, 0, 0, 0, 0, 0, 0, 0, 0, 0, 9 / 10]] (3/10) = None"
proof -
  let ?d = "[[0, 0, 0, 0, 0, 0, 0, 0, 0, 0, 0, 0, 0, 0, 0, 0, 9 / 10 :: real]]"
  have "snd (wnms_round ?d (3/10) [0]) = [0]"
    by (simp add: wnms_round_remaining candidate_iou_def jaccard_def intersect_def Let_def)
  then have "wnms_loop ?d (3/10) [0] [] = None" by (intro wnms_loop_stuck) simp_all
  then show ?thesis
    by (simp add: weighted_non_max_suppression_def size2d_def argsort_desc_def)
qed

text \<open>
  C10, as the claim states it, fails: a box whose corners are swapped on both axes has a
  positive area by the formula of \<open>_jaccard\<close>, but \<open>_intersect\<close> clips its negative
  extents to zero, so its overlap with itself is 0 and the loop never returns.
\<close>

theorem wnms_inverted_box_counterexample:
  "1 / 1000000 \<le> box_area [1, 1, 0, 0, 0, 0, 0, 0, 0, 0, 0, 0, 0, 0, 0, 0, 9 / 10]
   \<and> (3 / 10 :: real) < 1
   \<and> weighted_non_max_suppression
     [[1, 1, 0, 0, 0, 0, 0, 0, 0, 0, 0, 0, 0, 0, 0, 0, 9 / 10]] (3 / 10) = None"
proof -
  let ?d = "[[1, 1, 0, 0, 0, 0, 0, 0, 0, 0, 0, 0, 0, 0, 0, 0, 9 / 10 :: real]]"
  have "snd (wnms_round ?d (3/10) [0]) = [0]"
    by (simp add: wnms_round_remaining candidate_iou_def jaccard_def intersect_def Let_def)
  then have "wnms_loop ?d (3/10) [0] [] = None" by (intro wnms_loop_stuck) simp_all
  then show ?thesis
    by (simp add: weighted_non_max_suppression_def size2d_def argsort_desc_def box_area_def)
qed

text \<open>
  C10, amended. When every box has positive height and width and an area of at least
  \<open>1e-6\<close>, and the threshold is at most \<open>0.999999\<close> (a threshold within \<open>2^-25\<close> of 1 is
  compared as the float32 value 1.0 by the source), the suppression returns; in every pass
  over row positions of the array the candidate overlaps itself with ratio 1, which
  exceeds the threshold, the candidate leaves \<open>remaining\<close>, and \<open>remaining\<close> gets strictly
  shorter.
\<close>

theorem wnms_terminates:
  assumes wf: "\<forall>d \<in> set dets. d ! 0 < d ! 2 \<and> d ! 1 < d ! 3 \<and> 1 / 1000000 \<le> box_area d"
    and below: "thr \<le> 999999 / 1000000"
  shows "(\<exists>out. weighted_non_max_suppression dets thr = Some out)
    \<and> (\<forall>remaining. remaining \<noteq> [] \<and> set remaining \<subseteq> {0..<length dets} \<longrightarrow>
          candidate_iou dets remaining (hd remaining) = 1
        \<and> hd remaining \<notin> set (snd (wnms_round dets thr remaining))
        \<and> length (snd (wnms_round dets thr remaining)) < length remaining)"
proof -
  have thr: "thr < 1" using below by simp
  have wf': "\<forall>d \<in> set dets. well_formed_box d" using wf by (simp add: well_formed_box_def)
  have rounds: "candidate_iou dets remaining (hd remaining) = 1
        \<and> hd remaining \<notin> set (snd (wnms_round dets thr remaining))
        \<and> length (snd (wnms_round dets thr remaining)) < length remaining"
    if "remaining \<noteq> [] \<and> set remaining \<subseteq> {0..<length dets}" for remaining
  proof -
    from that have "hd remaining \<in> set remaining" by simp
    moreover from that have "set remaining \<subseteq> {0..<length dets}" by simp
    ultimately have "hd remaining \<in> {0..<length dets}" by (rule subsetD [rotated])
    then have "hd remaining < length dets" by simp
    with wf' have h: "well_formed_box (dets ! hd remaining)" by simp
    have one: "candidate_iou dets remaining (hd remaining) = 1"
      by (rule candidate_iou_self [OF h])
    have "hd remaining \<notin> set (snd (wnms_round dets thr remaining))"
      using one thr by (simp add: wnms_round_remaining)
    moreover have "length (snd (wnms_round dets thr remaining)) < length remaining"
      using that h thr by (intro wnms_round_shrinks) simp_all
    ultimately show ?thesis using one by simp
  qed
  from wnms_well_formed [OF wf' thr] rounds show ?thesis by blast
qed


theorem wnms_terminates_witness:
  "(\<exists>out. weighted_non_max_suppression
            [[0, 0, 1, 1, 0, 0, 0, 0, 0, 0, 0, 0, 0, 0, 0, 0, 9 / 10],
             [0, 0, 1, 1 / 2, 0, 0, 0, 0, 0, 0, 0, 0, 0, 0, 0, 0, 7 / 10]] (3 / 10) = Some out)
   \<and> candidate_iou
        [[0, 0, 1, 1, 0, 0, 0, 0, 0, 0, 0, 0, 0, 0, 0, 0, 9 / 10],
         [0, 0, 1, 1 / 2, 0, 0, 0, 0, 0, 0, 0, 0, 0, 0, 0, 0, 7 / 10]] [0, 1] (hd [0, 1]) = 1"
proof -
  let ?dets = "[[0, 0, 1, 1, 0, 0, 0, 0, 0, 0, 0, 0, 0, 0, 0, 0, 9 / 10],
                [0, 0, 1, 1 / 2, 0, 0, 0, 0, 0, 0, 0, 0, 0, 0, 0, 0, 7 / 10 :: real]]"
  have boxes: "\<forall>d \<in> set ?dets. d ! 0 < d ! 2 \<and> d ! 1 < d ! 3 \<and> 1 / 1000000 \<le> box_area d"
    by (simp add: box_area_def)
  have thr: "(3 / 10 :: real) \<le> 999999 / 1000000" by simp
  have rem: "[0, 1] \<noteq> [] \<and> set [0, 1 :: nat] \<subseteq> {0..<length ?dets}" by simp
  from wnms_terminates [OF boxes thr] rem show ?thesis by blast
qed

text \<open>
  C6. In a pass of the loop, when the overlapping set has more than one member (and
  their scores do not sum to zero; scores are sigmoid values), the appended detection has
  17 entries, its 16 coordinates are the score-weighted averages over the members and its
  score is the sum of the members' scores divided by their number; when the set has one
  member the candidate is appended unchanged. Two detections whose boxes overlap with
  ratio 0.5 are merged at the default threshold 0.3 into one detection whose score is
  half the sum of their scores.
\<close>

theorem wnms_round_weighted_merge:
  assumes "length (dets ! hd remaining) = 17"
  shows "(1 < length (overlapping_set dets thr remaining)
            \<and> (\<Sum>i\<leftarrow>overlapping_set dets thr remaining. dets ! i ! 16) \<noteq> 0 \<longrightarrow>
            length (fst (wnms_round dets thr remaining)) = 17
          \<and> (\<forall>c < 16. fst (wnms_round dets thr remaining) ! c =
                 (\<Sum>i\<leftarrow>overlapping_set dets thr remaining. dets ! i ! c * dets ! i ! 16)
                   / (\<Sum>i\<leftarrow>overlapping_set dets thr remaining. dets ! i ! 16))
          \<and> fst (wnms_round dets thr remaining) ! 16 =
                 (\<Sum>i\<leftarrow>overlapping_set dets thr remaining. dets ! i ! 16)
                   / real (length (overlapping_set dets thr remaining)))
       \<and> (length (overlapping_set dets thr remaining) = 1 \<longrightarrow>
            fst (wnms_round dets thr remaining) = dets ! hd remaining)
       \<and> jaccard [0, 0, 1, 1] [0, 0, 1, 1 / 2] = 1 / 2
       \<and> weighted_non_max_suppression
            [[0, 0, 1, 1, 0, 0, 0, 0, 0, 0, 0, 0, 0, 0, 0, 0, 9 / 10],
             [0, 0, 1, 1 / 2, 0, 0, 0, 0, 0, 0, 0, 0, 0, 0, 0, 0, 7 / 10]] (3 / 10)
          = Some [[0, 0, 1, 25 / 32, 0, 0, 0, 0, 0, 0, 0, 0, 0, 0, 0, 0, (9 / 10 + 7 / 10) / 2]]"
proof -
  let ?ov = "overlapping_set dets thr remaining"
  let ?w = "map (\<lambda>c. (\<Sum>i\<leftarrow>?ov. dets ! i ! c * dets ! i ! 16) / (\<Sum>i\<leftarrow>?ov. dets ! i ! 16))
              [0..<16]"
  have merged: "fst (wnms_round dets thr remaining) =
      (?w @ drop 16 (dets ! hd remaining))
        [16 := (\<Sum>i\<leftarrow>?ov. dets ! i ! 16) / real (length ?ov)]"
    if "1 < length ?ov"
    using that by (simp add: wnms_round_emitted Let_def)
  have lw: "length ?w = 16" by simp
  have m1: "length (fst (wnms_round dets thr remaining)) = 17" if "1 < length ?ov"
    unfolding merged [OF that] using assms by simp
  have m2: "fst (wnms_round dets thr remaining) ! c =
       (\<Sum>i\<leftarrow>?ov. dets ! i ! c * dets ! i ! 16) / (\<Sum>i\<leftarrow>?ov. dets ! i ! 16)"
    if "1 < length ?ov" "c < 16" for c
  proof -
    have "fst (wnms_round dets thr remaining) ! c = (?w @ drop 16 (dets ! hd remaining)) ! c"
      unfolding merged [OF that(1)] using that(2) by simp
    also have "\<dots> = ?w ! c" using that(2) lw by (simp add: nth_append)
    also have "\<dots> = (\<Sum>i\<leftarrow>?ov. dets ! i ! c * dets ! i ! 16) / (\<Sum>i\<leftarrow>?ov. dets ! i ! 16)"
      using that(2) by (simp del: upt_Suc)
    finally show ?thesis .
  qed
  have m3: "fst (wnms_round dets thr remaining) ! 16 =
       (\<Sum>i\<leftarrow>?ov. dets ! i ! 16) / real (length ?ov)" if "1 < length ?ov"
    unfolding merged [OF that] using assms lw by (simp del: upt_Suc)
  have single: "fst (wnms_round dets thr remaining) = dets ! hd remaining"
    if "length ?ov = 1"
    using that by (simp add: wnms_round_emitted Let_def)
  have iou: "jaccard [0, 0, 1, 1] [0, 0, 1, 1 / 2] = 1 / 2"
    by (simp add: jaccard_def intersect_def Let_def)
  have scen: "weighted_non_max_suppression
            [[0, 0, 1, 1, 0, 0, 0, 0, 0, 0, 0, 0, 0, 0, 0, 0, 9 / 10],
             [0, 0, 1, 1 / 2, 0, 0, 0, 0, 0, 0, 0, 0, 0, 0, 0, 0, 7 / 10]] (3 / 10)
          = Some [[0, 0, 1, 25 / 32, 0, 0, 0, 0, 0, 0, 0, 0, 0, 0, 0, 0, (9 / 10 + 7 / 10) / 2]]"
    by (simp add: weighted_non_max_suppression_def size2d_def argsort_desc_def upt_rec
        wnms_loop.simps wnms_round_def jaccard_def intersect_def Let_def)
  from m1 m2 m3 single iou scen show ?thesis by blast
qed

theorem wnms_round_weighted_merge_witness:
  "length ([[0, 0, 1, 1, 0, 0, 0, 0, 0, 0, 0, 0, 0, 0, 0, 0, 9 / 10],
            [0, 0, 1, 1 / 2, 0, 0, 0, 0, 0, 0, 0, 0, 0, 0, 0, 0, 7 / 10 :: real]] ! hd [0, 1]) = 17
   \<and> overlapping_set
        [[0, 0, 1, 1, 0, 0, 0, 0, 0, 0, 0, 0, 0, 0, 0, 0, 9 / 10],
         [0, 0, 1, 1 / 2, 0, 0, 0, 0, 0, 0, 0, 0, 0, 0, 0, 0, 7 / 10]] (3 / 10) [0, 1] = [0, 1]
   \<and> fst (wnms_round
        [[0, 0, 1, 1, 0, 0, 0, 0, 0, 0, 0, 0, 0, 0, 0, 0, 9 / 10],
         [0, 0, 1, 1 / 2, 0, 0, 0, 0, 0, 0, 0, 0, 0, 0, 0, 0, 7 / 10]] (3 / 10) [0, 1]) ! 16
       = 4 / 5"
proof -
  let ?dets = "[[0, 0, 1, 1, 0, 0, 0, 0, 0, 0, 0, 0, 0, 0, 0, 0, 9 / 10],
                [0, 0, 1, 1 / 2, 0, 0, 0, 0, 0, 0, 0, 0, 0, 0, 0, 0, 7 / 10 :: real]]"
  have len: "length (?dets ! hd [0, 1]) = 17" by simp
  have ov: "overlapping_set ?dets (3 / 10) [0, 1] = [0, 1]"
    by (simp add: overlapping_set_def candidate_iou_def jaccard_def intersect_def Let_def)
  from wnms_round_weighted_merge [OF len, of "3 / 10"] len ov show ?thesis by simp
qed


subsection \<open>Anchor decoding\<close>

lemma upt_six: "[0..<6] = [0, 1, 2, 3, 4, 5]"
  by (simp add: upt_rec)

lemma decode_row_length: "length (decode_row self raw anchor) = length raw"
  by (simp add: decode_row_def Let_def upt_six)

lemma decode_row_corners:
  assumes "length raw = 16"
  shows "decode_row self raw anchor ! 0 =
           (raw ! 1 / y_scale self * anchor ! 3 + anchor ! 1) - (raw ! 3 / h_scale self * anchor ! 3) / 2"
    and "decode_row self raw anchor ! 1 =
           (raw ! 0 / x_scale self * anchor ! 2 + anchor ! 0) - (raw ! 2 / w_scale self * anchor ! 2) / 2"
    and "decode_row self raw anchor ! 2 =
           (raw ! 1 / y_scale self * anchor ! 3 + anchor ! 1) + (raw ! 3 / h_scale self * anchor ! 3) / 2"
    and "decode_row self raw anchor ! 3 =
           (raw ! 0 / x_scale self * anchor ! 2 + anchor ! 0) + (raw ! 2 / w_scale self * anchor ! 2) / 2"
  using assms by (simp_all add: decode_row_def Let_def upt_six)

lemma decode_row_keypoint:
  assumes "length raw = 16" "k < 6"
  shows "decode_row self raw anchor ! (4 + k * 2) =
           raw ! (4 + k * 2) / x_scale self * anchor ! 2 + anchor ! 0"
    and "decode_row self raw anchor ! (5 + k * 2) =
           raw ! (5 + k * 2) / y_scale self * anchor ! 3 + anchor ! 1"
proof -
  from assms(2) have "k = 0 \<or> k = 1 \<or> k = 2 \<or> k = 3 \<or> k = 4 \<or> k = 5" by auto
  then show "decode_row self raw anchor ! (4 + k * 2) =
           raw ! (4 + k * 2) / x_scale self * anchor ! 2 + anchor ! 0"
    using assms(1) by (elim disjE) (simp_all add: decode_row_def Let_def upt_six)
  from assms(2) have "k = 0 \<or> k = 1 \<or> k = 2 \<or> k = 3 \<or> k = 4 \<or> k = 5" by auto
  then show "decode_row self raw anchor ! (5 + k * 2) =
           raw ! (5 + k * 2) / y_scale self * anchor ! 3 + anchor ! 1"
    using assms(1) by (elim disjE) (simp_all add: decode_row_def Let_def upt_six)
qed

lemma init_scales:
  assumes "face_detection_init anchor_table back_model = Inr self"
  shows "x_scale self = (if back_model then 256 else 128)"
    "y_scale self = (if back_model then 256 else 128)"
    "w_scale self = (if back_model then 256 else 128)"
    "h_scale self = (if back_model then 256 else 128)"
    "anchors self = anchor_table" "length anchor_table = 896"
  using assms by (auto simp: face_detection_init_def split: if_splits)

lemma decode_boxes_nth:
  assumes "i < length raw_boxes" "i < length (anchors self)"
  shows "decode_boxes self raw_boxes ! i = decode_row self (raw_boxes ! i) (anchors self ! i)"
  using assms by (simp add: decode_boxes_def)


text \<open>
  C4, as the claim states it, fails: the decoder multiplies the scaled raw offset of a
  centre by the anchor's size before adding the anchor's centre. With an anchor of size 2
  at the origin and a raw x offset of 128, the front variant decodes the centre to
  \<open>128 / 128 * 2 + 0 = 2\<close>, where the claim's formula gives \<open>128 / 128 + 0 = 1\<close>.
\<close>

theorem decode_center_counterexample:
  "face_detection_init (replicate 896 [0, 0, 2, 2]) False =
     Inr \<lparr>anchors = replicate 896 [0, 0, 2, 2], image_size = 128,
          x_scale = 128, y_scale = 128, w_scale = 128, h_scale = 128,
          min_score_thresh = 25 / 100, score_clipping_thresh = 100,
          min_suppression_threshold = 3 / 10\<rparr>
   \<and> decode_boxes
       \<lparr>anchors = replicate 896 [0, 0, 2, 2], image_size = 128,
        x_scale = 128, y_scale = 128, w_scale = 128, h_scale = 128,
        min_score_thresh = 25 / 100, score_clipping_thresh = 100,
        min_suppression_threshold = 3 / 10\<rparr>
       (replicate 896 [128, 0, 0, 0, 0, 0, 0, 0, 0, 0, 0, 0, 0, 0, 0, 0]) ! 0
     = [0, 2, 0, 2, 0, 0, 0, 0, 0, 0, 0, 0, 0, 0, 0, 0]
   \<and> ([128, 0, 0, 0, 0, 0, 0, 0, 0, 0, 0, 0, 0, 0, 0, 0] ! 0 / 128 + [0, 0, 2, 2] ! 0)
        - ([128, 0, 0, 0, 0, 0, 0, 0, 0, 0, 0, 0, 0, 0, 0, 0] ! 2 / 128 * [0, 0, 2, 2] ! 2) / 2
     = (1 :: real)"
  by (simp add: face_detection_init_def decode_boxes_def decode_row_def Let_def upt_six)

text \<open>
  C4, amended. For a detector built by the constructor (scale 128 for the front variant,
  256 for the back variant), every anchor index \<open>i\<close> and every raw row of 16 numbers, the
  decoded row has the centre \<open>raw[i,0:2] / scale * anchor[i,2:4] + anchor[i,0:2]\<close>, the size
  \<open>raw[i,2:4] / scale * anchor[i,2:4]\<close>, the corners centre minus and plus half the size in
  the order (ymin, xmin, ymax, xmax), and each of the six keypoint pairs from column 4 on
  decoded by the formula of the centre.
\<close>

theorem decode_boxes_formula:
  assumes init: "face_detection_init anchor_table back_model = Inr self"
    and rows: "length raw_boxes = 896"
    and i: "i < 896"
    and cols: "length (raw_boxes ! i) = 16"
  shows
    "(let scale = (if back_model then 256 else 128);
          raw = raw_boxes ! i;
          anchor = anchor_table ! i;
          decoded = decode_boxes self raw_boxes ! i;
          center_x = raw ! 0 / scale * anchor ! 2 + anchor ! 0;
          center_y = raw ! 1 / scale * anchor ! 3 + anchor ! 1;
          size_w = raw ! 2 / scale * anchor ! 2;
          size_h = raw ! 3 / scale * anchor ! 3
      in length decoded = 16
       \<and> decoded ! 0 = center_y - size_h / 2
       \<and> decoded ! 1 = center_x - size_w / 2
       \<and> decoded ! 2 = center_y + size_h / 2
       \<and> decoded ! 3 = center_x + size_w / 2
       \<and> (\<forall>k < 6. decoded ! (4 + k * 2) = raw ! (4 + k * 2) / scale * anchor ! 2 + anchor ! 0
                 \<and> decoded ! (5 + k * 2) = raw ! (5 + k * 2) / scale * anchor ! 3 + anchor ! 1))"
proof -
  note sc = init_scales [OF init]
  have d: "decode_boxes self raw_boxes ! i = decode_row self (raw_boxes ! i) (anchor_table ! i)"
    using decode_boxes_nth [of i raw_boxes self] rows i sc(5,6) by simp
  show ?thesis
    unfolding Let_def d
    using decode_row_corners [OF cols, of self "anchor_table ! i"]
      decode_row_keypoint [OF cols, of _ self "anchor_table ! i"]
      decode_row_length [of self "raw_boxes ! i" "anchor_table ! i"] cols
    by (simp add: sc(1-4))
qed

theorem decode_boxes_formula_witness:
  "face_detection_init (replicate 896 [0, 0, 2, 2]) False =
     Inr \<lparr>anchors = replicate 896 [0, 0, 2, 2], image_size = 128,
          x_scale = 128, y_scale = 128, w_scale = 128, h_scale = 128,
          min_score_thresh = 25 / 100, score_clipping_thresh = 100,
          min_suppression_threshold = 3 / 10\<rparr>
   \<and> decode_boxes
       \<lparr>anchors = replicate 896 [0, 0, 2, 2], image_size = 128,
        x_scale = 128, y_scale = 128, w_scale = 128, h_scale = 128,
        min_score_thresh = 25 / 100, score_clipping_thresh = 100,
        min_suppression_threshold = 3 / 10\<rparr>
       (replicate 896 [128, 0, 0, 0, 0, 0, 0, 0, 0, 0, 0, 0, 0, 0, 0, 0]) ! 0 ! 1 = 2"
proof -
  let ?self = "\<lparr>anchors = replicate 896 [0, 0, 2, 2 :: real], image_size = 128,
          x_scale = 128, y_scale = 128, w_scale = 128, h_scale = 128,
          min_score_thresh = 25 / 100, score_clipping_thresh = 100,
          min_suppression_threshold = 3 / 10\<rparr>"
  let ?raw = "replicate 896 [128, 0, 0, 0, 0, 0, 0, 0, 0, 0, 0, 0, 0, 0, 0, 0 :: real]"
  have init: "face_detection_init (replicate 896 [0, 0, 2, 2]) False = Inr ?self"
    by (simp add: face_detection_init_def)
  have rows: "length ?raw = 896" by simp
  have i: "(0 :: nat) < 896" by simp
  have cols: "length (?raw ! 0) = 16" by simp
  from decode_boxes_formula [OF init rows i cols] init show ?thesis
    by (simp add: Let_def)
qed


subsection \<open>Pixel boxes, tilt and tightening\<close>

lemma tighten_shape:
  "\<exists>a b. tighten width tps =
     (min (max a 0) (min (max b (max a 0 + 1)) (width - 1) - 1),
      min (max b (max a 0 + 1)) (width - 1))"
  unfolding tighten_def Let_def case_prod_beta by (intro exI) (rule refl)

lemma tighten_range:
  assumes "tighten width tps = (xmin_int, xmax_int)"
  shows "xmin_int < xmax_int" "xmax_int \<le> width - 1"
    "0 < width \<Longrightarrow> 0 \<le> xmax_int" "2 \<le> width \<Longrightarrow> 0 \<le> xmin_int"
proof -
  from tighten_shape [of width tps] assms obtain a b where
    x: "xmin_int = min (max a 0) (min (max b (max a 0 + 1)) (width - 1) - 1)"
       "xmax_int = min (max b (max a 0 + 1)) (width - 1)" by auto
  show "xmin_int < xmax_int" unfolding x by linarith
  show "xmax_int \<le> width - 1" unfolding x by linarith
  show "0 < width \<Longrightarrow> 0 \<le> xmax_int" unfolding x by linarith
  show "2 \<le> width \<Longrightarrow> 0 \<le> xmin_int" unfolding x by linarith
qed

lemma highly_tilted_iff:
  "highly_tilted tps \<longleftrightarrow>
     \<bar>fst (tps ! 4) - fst (tps ! 0)\<bar> \<noteq> 0 \<and> \<bar>fst (tps ! 5) - fst (tps ! 1)\<bar> \<noteq> 0
     \<and> (\<bar>fst (tps ! 5) - fst (tps ! 1)\<bar> * 2 < \<bar>fst (tps ! 4) - fst (tps ! 0)\<bar>
        \<or> \<bar>fst (tps ! 4) - fst (tps ! 0)\<bar> * 2 < \<bar>fst (tps ! 5) - fst (tps ! 1)\<bar>)"
  unfolding highly_tilted_def tilt_gaps_def Let_def by (simp split: prod.splits)


lemma to_pixel_range:
  assumes "0 < d"
  shows "0 \<le> to_pixel v d" "to_pixel v d \<le> d - 1"
proof -
  let ?c = "clip (v * of_int d) 0 (of_int (d - 1))"
  have lo: "0 \<le> ?c" and hi: "?c \<le> of_int (d - 1)"
    using assms by (simp_all add: clip_def)
  have p: "to_pixel v d = \<lfloor>?c\<rfloor>" using lo by (simp add: to_pixel_def py_int_def)
  show "0 \<le> to_pixel v d" unfolding p using lo by simp
  have "\<lfloor>?c\<rfloor> \<le> \<lfloor>(of_int (d - 1) :: real)\<rfloor>" using hi by (rule floor_mono)
  then show "to_pixel v d \<le> d - 1" unfolding p by simp
qed

lemma detect_one_keypoints:
  "keypoints (detect_one width height d) =
     map (\<lambda>k. (to_pixel (d ! (4 + k * 2)) width, to_pixel (d ! (5 + k * 2)) height)) [0..<6]"
  by (simp add: detect_one_def Let_def del: upt_Suc)

lemma detect_one_box:
  "box (detect_one width height d) =
     (if highly_tilted (keypoints (detect_one width height d))
      then (to_pixel (d ! 1) width, to_pixel (d ! 0) height,
            to_pixel (d ! 3) width, to_pixel (d ! 2) height)
      else (fst (tighten width (keypoints (detect_one width height d))), to_pixel (d ! 0) height,
            snd (tighten width (keypoints (detect_one width height d))), to_pixel (d ! 2) height))"
  unfolding detect_one_keypoints
  by (simp add: detect_one_def Let_def split: prod.splits del: upt_Suc)

lemma detect_one_keypoints_range:
  assumes "0 < width" "0 < height" "p \<in> set (keypoints (detect_one width height d))"
  shows "0 \<le> fst p \<and> fst p \<le> width - 1 \<and> 0 \<le> snd p \<and> snd p \<le> height - 1"
  using assms(3) to_pixel_range [OF assms(1)] to_pixel_range [OF assms(2)]
  unfolding detect_one_keypoints by auto

lemma detect_one_tilted_example:
  "detect_one 160 160
       [1 / 8, 1 / 16, 3 / 4, 13 / 16, 3 / 16, 1 / 4, 1 / 2, 1 / 4, 3 / 8, 1 / 2, 3 / 8, 5 / 8,
        1 / 8, 3 / 8, 11 / 16, 3 / 8, 7 / 8]
     = \<lparr>box = (10, 20, 130, 120), score = 7 / 8,
        keypoints = [(30, 40), (80, 40), (60, 80), (60, 100), (20, 60), (110, 60)]\<rparr>"
  by code_simp

lemma detect_one_untilted_example:
  "detect_one 160 160
       [1 / 8, 1 / 16, 3 / 4, 13 / 16, 3 / 16, 1 / 4, 1 / 2, 1 / 4, 3 / 8, 1 / 2, 3 / 8, 5 / 8,
        1 / 8, 3 / 8, 5 / 8, 3 / 8, 7 / 8]
     = \<lparr>box = (22, 20, 98, 120), score = 7 / 8,
        keypoints = [(30, 40), (80, 40), (60, 80), (60, 100), (20, 60), (100, 60)]\<rparr>"
  by code_simp

lemma detect_one_width_one:
  "detect_one 1 1 [0, 0, 0, 0, 0, 0, 0, 0, 0, 0, 0, 0, 0, 0, 0, 0, 7 / 8]
     = \<lparr>box = (- 1, 0, 0, 0), score = 7 / 8,
        keypoints = [(0, 0), (0, 0), (0, 0), (0, 0), (0, 0), (0, 0)]\<rparr>"
  by code_simp

text \<open>
  C3, as the claim states it, fails. For a face classified as tilted the box is the
  clamped detector box, and nothing orders its corners after the pixels are truncated: a
  detection whose box has positive height and width, both 1/256 of the frame, passes
  suppression unchanged and gives the box (80, 80, 80, 80) in a frame of 160 by 160, with
  neither \<open>xmin < xmax\<close> nor \<open>ymin < ymax\<close>. (The vertical bounds are never ordered, tilted
  or not; and in a frame one pixel wide the last clamp of the tightening step gives
  \<open>xmin = -1\<close>, see \<open>detect_one_width_one\<close>.)
\<close>

theorem detect_one_degenerate_box_counterexample:
  "(0 :: int) < 160
   \<and> weighted_non_max_suppression
       [[1 / 2, 1 / 2, 129 / 256, 129 / 256, 3 / 16, 1 / 4, 1 / 2, 1 / 4, 3 / 8, 1 / 2, 3 / 8,
         5 / 8, 1 / 8, 3 / 8, 11 / 16, 3 / 8, 7 / 8]] (3 / 10)
     = Some [[1 / 2, 1 / 2, 129 / 256, 129 / 256, 3 / 16, 1 / 4, 1 / 2, 1 / 4, 3 / 8, 1 / 2,
              3 / 8, 5 / 8, 1 / 8, 3 / 8, 11 / 16, 3 / 8, 7 / 8]]
   \<and> detect_one 160 160
       [1 / 2, 1 / 2, 129 / 256, 129 / 256, 3 / 16, 1 / 4, 1 / 2, 1 / 4, 3 / 8, 1 / 2, 3 / 8,
        5 / 8, 1 / 8, 3 / 8, 11 / 16, 3 / 8, 7 / 8]
     = \<lparr>box = (80, 80, 80, 80), score = 7 / 8,
        keypoints = [(30, 40), (80, 40), (60, 80), (60, 100), (20, 60), (110, 60)]\<rparr>"
proof -
  let ?d = "[1 / 2, 1 / 2, 129 / 256, 129 / 256, 3 / 16, 1 / 4, 1 / 2, 1 / 4, 3 / 8, 1 / 2,
             3 / 8, 5 / 8, 1 / 8, 3 / 8, 11 / 16, 3 / 8, 7 / 8 :: real]"
  have s: "weighted_non_max_suppression [?d] (3 / 10) = Some [?d]"
    by (simp add: weighted_non_max_suppression_def size2d_def argsort_desc_def
        wnms_loop.simps wnms_round_def jaccard_def intersect_def Let_def)
  have p: "detect_one 160 160 ?d
     = \<lparr>box = (80, 80, 80, 80), score = 7 / 8,
        keypoints = [(30, 40), (80, 40), (60, 80), (60, 100), (20, 60), (110, 60)]\<rparr>"
    by code_simp
  from s p show ?thesis by simp
qed

text \<open>
  C3, amended. For a frame of positive width and height and any suppressed detection,
  the Detection has six keypoints, every keypoint coordinate and \<open>ymin\<close>, \<open>ymax\<close>, \<open>xmax\<close>
  lie in \<open>[0, frame_dim - 1]\<close> of their axis, \<open>xmin\<close> is at most \<open>width - 1\<close> and is not
  negative when the face is classified as tilted or the frame is at least two pixels wide,
  and \<open>xmin < xmax\<close> when the face is not classified as tilted.
\<close>

theorem detect_one_coordinates:
  assumes w: "0 < width" and h: "0 < height"
  shows "length (keypoints (detect_one width height d)) = 6
     \<and> (\<forall>p \<in> set (keypoints (detect_one width height d)).
           0 \<le> fst p \<and> fst p \<le> width - 1 \<and> 0 \<le> snd p \<and> snd p \<le> height - 1)
     \<and> (case box (detect_one width height d) of
           (xmin, ymin, xmax, ymax) \<Rightarrow>
             0 \<le> ymin \<and> ymin \<le> height - 1 \<and> 0 \<le> ymax \<and> ymax \<le> height - 1
           \<and> xmin \<le> width - 1 \<and> 0 \<le> xmax \<and> xmax \<le> width - 1
           \<and> (highly_tilted (keypoints (detect_one width height d)) \<or> 2 \<le> width
                 \<longrightarrow> 0 \<le> xmin)
           \<and> (\<not> highly_tilted (keypoints (detect_one width height d)) \<longrightarrow> xmin < xmax))"
proof -
  let ?k = "keypoints (detect_one width height d)"
  have len: "length ?k = 6" by (simp add: detect_one_keypoints del: upt_Suc)
  have kp: "\<forall>p \<in> set ?k.
           0 \<le> fst p \<and> fst p \<le> width - 1 \<and> 0 \<le> snd p \<and> snd p \<le> height - 1"
    using detect_one_keypoints_range [OF w h] by blast
  have bx: "(case box (detect_one width height d) of
           (xmin, ymin, xmax, ymax) \<Rightarrow>
             0 \<le> ymin \<and> ymin \<le> height - 1 \<and> 0 \<le> ymax \<and> ymax \<le> height - 1
           \<and> xmin \<le> width - 1 \<and> 0 \<le> xmax \<and> xmax \<le> width - 1
           \<and> (highly_tilted ?k \<or> 2 \<le> width \<longrightarrow> 0 \<le> xmin)
           \<and> (\<not> highly_tilted ?k \<longrightarrow> xmin < xmax))"
  proof (cases "highly_tilted ?k")
    case True
    then show ?thesis
      using to_pixel_range [OF w] to_pixel_range [OF h] by (simp add: detect_one_box)
  next
    case False
    obtain a b where t: "tighten width ?k = (a, b)" by (cases "tighten width ?k") auto
    from tighten_range [OF t] w
    have "a < b" "b \<le> width - 1" "0 \<le> b" "2 \<le> width \<longrightarrow> 0 \<le> a" by auto
    then show ?thesis
      using False t to_pixel_range [OF h] by (simp add: detect_one_box)
  qed
  from len kp bx show ?thesis by blast
qed



theorem detect_one_coordinates_witness:
  "(0 :: int) < 160
   \<and> \<not> highly_tilted (keypoints (detect_one 160 160
       [1 / 8, 1 / 16, 3 / 4, 13 / 16, 3 / 16, 1 / 4, 1 / 2, 1 / 4, 3 / 8, 1 / 2, 3 / 8, 5 / 8,
        1 / 8, 3 / 8, 5 / 8, 3 / 8, 7 / 8]))
   \<and> (case box (detect_one 160 160
       [1 / 8, 1 / 16, 3 / 4, 13 / 16, 3 / 16, 1 / 4, 1 / 2, 1 / 4, 3 / 8, 1 / 2, 3 / 8, 5 / 8,
        1 / 8, 3 / 8, 5 / 8, 3 / 8, 7 / 8]) of
         (xmin, ymin, xmax, ymax) \<Rightarrow> 0 \<le> xmin \<and> xmin < xmax \<and> xmax \<le> 159)"
proof -
  let ?d = "[1 / 8, 1 / 16, 3 / 4, 13 / 16, 3 / 16, 1 / 4, 1 / 2, 1 / 4, 3 / 8, 1 / 2, 3 / 8,
             5 / 8, 1 / 8, 3 / 8, 5 / 8, 3 / 8, 7 / 8 :: real]"
  have pos: "(0 :: int) < 160" by simp
  have nt: "\<not> highly_tilted (keypoints (detect_one 160 160 ?d))"
    unfolding detect_one_untilted_example by (simp add: highly_tilted_def tilt_gaps_def)
  from detect_one_coordinates [OF pos pos, of ?d] nt pos show ?thesis
    by (auto split: prod.splits)
qed

text \<open>
  C7. The face is classified as highly tilted exactly when both ear-to-eye gaps,
  \<open>left_gap = |ear_left.x - eye_left.x|\<close> and \<open>right_gap = |ear_right.x - eye_right.x|\<close>,
  are not zero and one of them exceeds twice the other; for a tilted face the box of the
  Detection is the clamped detector box, no tightening applied. With \<open>left_gap = 10\<close> and
  \<open>right_gap = 30\<close> the face is tilted and its box is the clamped detector box.
\<close>

theorem tilted_box_untightened:
  "(highly_tilted tight_points \<longleftrightarrow>
      \<bar>fst (tight_points ! 4) - fst (tight_points ! 0)\<bar> \<noteq> 0
    \<and> \<bar>fst (tight_points ! 5) - fst (tight_points ! 1)\<bar> \<noteq> 0
    \<and> (\<bar>fst (tight_points ! 4) - fst (tight_points ! 0)\<bar>
           > 2 * \<bar>fst (tight_points ! 5) - fst (tight_points ! 1)\<bar>
       \<or> \<bar>fst (tight_points ! 5) - fst (tight_points ! 1)\<bar>
           > 2 * \<bar>fst (tight_points ! 4) - fst (tight_points ! 0)\<bar>))
   \<and> (highly_tilted (keypoints (detect_one width height d)) \<longrightarrow>
         box (detect_one width height d) =
           (to_pixel (d ! 1) width, to_pixel (d ! 0) height,
            to_pixel (d ! 3) width, to_pixel (d ! 2) height))
   \<and> tilt_gaps (keypoints (detect_one 160 160
        [1 / 8, 1 / 16, 3 / 4, 13 / 16, 3 / 16, 1 / 4, 1 / 2, 1 / 4, 3 / 8, 1 / 2, 3 / 8, 5 / 8,
         1 / 8, 3 / 8, 11 / 16, 3 / 8, 7 / 8])) = (10, 30)
   \<and> highly_tilted (keypoints (detect_one 160 160
        [1 / 8, 1 / 16, 3 / 4, 13 / 16, 3 / 16, 1 / 4, 1 / 2, 1 / 4, 3 / 8, 1 / 2, 3 / 8, 5 / 8,
         1 / 8, 3 / 8, 11 / 16, 3 / 8, 7 / 8]))
   \<and> box (detect_one 160 160
        [1 / 8, 1 / 16, 3 / 4, 13 / 16, 3 / 16, 1 / 4, 1 / 2, 1 / 4, 3 / 8, 1 / 2, 3 / 8, 5 / 8,
         1 / 8, 3 / 8, 11 / 16, 3 / 8, 7 / 8]) = (10, 20, 130, 120)"
proof -
  let ?d = "[1 / 8, 1 / 16, 3 / 4, 13 / 16, 3 / 16, 1 / 4, 1 / 2, 1 / 4, 3 / 8, 1 / 2, 3 / 8,
             5 / 8, 1 / 8, 3 / 8, 11 / 16, 3 / 8, 7 / 8 :: real]"
  have a: "highly_tilted tight_points \<longleftrightarrow>
      \<bar>fst (tight_points ! 4) - fst (tight_points ! 0)\<bar> \<noteq> 0
    \<and> \<bar>fst (tight_points ! 5) - fst (tight_points ! 1)\<bar> \<noteq> 0
    \<and> (\<bar>fst (tight_points ! 4) - fst (tight_points ! 0)\<bar>
           > 2 * \<bar>fst (tight_points ! 5) - fst (tight_points ! 1)\<bar>
       \<or> \<bar>fst (tight_points ! 5) - fst (tight_points ! 1)\<bar>
           > 2 * \<bar>fst (tight_points ! 4) - fst (tight_points ! 0)\<bar>)"
    unfolding highly_tilted_iff by (simp add: mult.commute)
  have b: "highly_tilted (keypoints (detect_one width height d)) \<longrightarrow>
         box (detect_one width height d) =
           (to_pixel (d ! 1) width, to_pixel (d ! 0) height,
            to_pixel (d ! 3) width, to_pixel (d ! 2) height)"
    by (simp add: detect_one_box)
  note c = detect_one_tilted_example
  have d: "tilt_gaps (keypoints (detect_one 160 160 ?d)) = (10, 30)"
    unfolding c by (simp add: tilt_gaps_def)
  have e: "highly_tilted (keypoints (detect_one 160 160 ?d))"
    unfolding c by (simp add: highly_tilted_def tilt_gaps_def)
  have f: "box (detect_one 160 160 ?d) = (10, 20, 130, 120)"
    unfolding c by simp
  from a b d e f show ?thesis by blast
qed

theorem tilted_box_untightened_witness:
  "highly_tilted (keypoints (detect_one 160 160
        [1 / 4, 1 / 4, 3 / 4, 3 / 4, 3 / 16, 1 / 4, 1 / 2, 1 / 4, 3 / 8, 1 / 2, 3 / 8, 5 / 8,
         1 / 8, 3 / 8, 11 / 16, 3 / 8, 7 / 8]))
   \<and> box (detect_one 160 160
        [1 / 4, 1 / 4, 3 / 4, 3 / 4, 3 / 16, 1 / 4, 1 / 2, 1 / 4, 3 / 8, 1 / 2, 3 / 8, 5 / 8,
         1 / 8, 3 / 8, 11 / 16, 3 / 8, 7 / 8]) = (40, 40, 120, 120)"
proof -
  let ?d = "[1 / 4, 1 / 4, 3 / 4, 3 / 4, 3 / 16, 1 / 4, 1 / 2, 1 / 4, 3 / 8, 1 / 2, 3 / 8,
             5 / 8, 1 / 8, 3 / 8, 11 / 16, 3 / 8, 7 / 8 :: real]"
  have k: "keypoints (detect_one 160 160 ?d)
             = [(30, 40), (80, 40), (60, 80), (60, 100), (20, 60), (110, 60)]"
    by code_simp
  have t: "highly_tilted (keypoints (detect_one 160 160 ?d))"
    unfolding k by (simp add: highly_tilted_def tilt_gaps_def)
  have z: "to_pixel (1 / 4) 160 = 40" "to_pixel (3 / 4) 160 = 120"
    by (simp_all add: to_pixel_def py_int_def clip_def)
  from tilted_box_untightened [of "keypoints (detect_one 160 160 ?d)" 160 160 ?d] t z
  show ?thesis by simp
qed

end
